theory Spec2Isabelle
  imports Main "HOL-Library.Word"
begin

section \<open>The SafetyEscrow contract\<close>

text \<open>
  A shallow embedding of the Solidity contract \<^verbatim>\<open>SafetyEscrow\<close>: an escrow ledger that
  holds a tourist's deposit for a booking, lets an authorised oracle record the outcome
  of the safety SLA check, and pays the deposit out to the operator or back to the
  tourist, with a dispute path decided by an arbiter.

  \<^item> \<^verbatim>\<open>address\<close> is a 160-bit word, \<^verbatim>\<open>uint256\<close> a 256-bit word. The contract is
    compiled with Solidity 0.8, whose \<^verbatim>\<open>+\<close>, \<^verbatim>\<open>-\<close> and \<^verbatim>\<open>*\<close> revert with a panic
    on overflow; the model writes that check out.
  \<^item> A Solidity \<^verbatim>\<open>mapping\<close> is a total function: a key never written reads as the
    all-zero value. The contract tests a booking's existence by
    \<^verbatim>\<open>bookings[id].tourist != address(0)\<close>.
  \<^item> A \<^verbatim>\<open>require\<close> that fails, and a panic, revert the whole call: the function
    returns \<open>Inl\<close> of an error and the storage written so far is dropped.
  \<^item> \<^verbatim>\<open>addr.call{value: v}("")\<close> is the fund-transfer primitive. It either succeeds
    or fails; which of the two is decided by the environment of the call. Code run by
    the receiver is not modelled, so the \<^verbatim>\<open>nonReentrant\<close> guard always passes.
  \<^item> Each function returns the new storage together with the transfers made and the
    events emitted, in the order of the source.
  \<^item> Only \<^verbatim>\<open>createBooking\<close> is \<^verbatim>\<open>payable\<close>. A call of any other function that
    carries value reverts before the function's modifiers and body run; each of those
    definitions starts with that check.
\<close>

subsection \<open>Data\<close>

type_synonym address = "160 word"
type_synonym uint256 = "256 word"

datatype BookingStatus = Pending | SLAPassed | SLAFailed | Refunded | Paid | Disputed

record Booking =
  tourist :: address
  operator :: address
  amount :: uint256
  depositTime :: uint256
  slaDeadline :: uint256
  status :: BookingStatus
  slaVerified :: bool
  bookingId :: string

text \<open>The value of a storage slot that was never written.\<close>

definition zero_Booking :: Booking where
  "zero_Booking = \<lparr>tourist = 0, operator = 0, amount = 0, depositTime = 0,
     slaDeadline = 0, status = Pending, slaVerified = False, bookingId = []\<rparr>"

text \<open>
  The storage of the contract. \<open>owner\<close> is the field of the \<^verbatim>\<open>Ownable\<close> base contract,
  set to the deployer; the base contract's own entry points for handing ownership over
  are not part of the source at hand and are not modelled.
\<close>

record escrow =
  owner :: address
  bookings :: "string \<Rightarrow> Booking"
  authorizedOracles :: "address \<Rightarrow> bool"
  arbiters :: "address \<Rightarrow> bool"

text \<open>
  What a call sees of its surroundings: the caller, the value sent along, the block's
  timestamp, and whether a transfer of a value to an address succeeds.
\<close>

record env =
  msg_sender :: address
  msg_value :: uint256
  block_timestamp :: uint256
  call_value :: "address \<Rightarrow> uint256 \<Rightarrow> bool"

datatype event =
    DepositMade string address address uint256
  | SLAPassed_ev string address
  | SLAFailed_ev string address
  | Refunded_ev string address uint256
  | PaidOut string address uint256
  | Disputed_ev string address address
  | DisputeResolved string bool uint256
  | OracleAuthorized address
  | OracleRevoked address
  | ArbiterAuthorized address
  | ArbiterRevoked address

datatype effect = Transfer address uint256 | Emit event

text \<open>
  The reverts of the contract, one constructor for each kind of failed check:
  \<^item> \<open>NotFound\<close>: \<^verbatim>\<open>"Booking does not exist"\<close>
  \<^item> \<open>DuplicateId\<close>: \<^verbatim>\<open>"Booking ID already exists"\<close>
  \<^item> \<open>InvalidAmount\<close>: \<^verbatim>\<open>"Deposit amount must be greater than 0"\<close>
  \<^item> \<open>InvalidParty\<close>: \<^verbatim>\<open>"Invalid operator address"\<close>, \<^verbatim>\<open>"Cannot book with yourself"\<close>
  \<^item> \<open>Unauthorized\<close>: \<^verbatim>\<open>"Not authorized oracle"\<close>, \<^verbatim>\<open>"Not authorized arbiter"\<close>,
    \<^verbatim>\<open>"Only tourist or operator can raise dispute"\<close>, \<^verbatim>\<open>"Ownable: caller is not the owner"\<close>
  \<^item> \<open>InvalidState\<close>: \<^verbatim>\<open>"Invalid booking status"\<close>,
    \<^verbatim>\<open>"Can only dispute after SLA verification"\<close>
  \<^item> \<open>AlreadyVerified\<close>: \<^verbatim>\<open>"SLA already verified"\<close>
  \<^item> \<open>DeadlinePassed\<close>: \<^verbatim>\<open>"SLA deadline passed"\<close>
  \<^item> \<open>DeadlineNotReached\<close>: \<^verbatim>\<open>"SLA deadline not reached"\<close>
  \<^item> \<open>TransferFailed\<close>: the five \<^verbatim>\<open>"... failed"\<close> messages after a transfer
  \<^item> \<open>NotVerified\<close>: \<^verbatim>\<open>"SLA not verified"\<close>
  \<^item> \<open>InvalidAddress\<close>: \<^verbatim>\<open>"Invalid oracle address"\<close>, \<^verbatim>\<open>"Invalid arbiter address"\<close>
  \<^item> \<open>Panic\<close>: arithmetic overflow
  \<^item> \<open>NonPayable\<close>: value sent to a function that is not \<^verbatim>\<open>payable\<close> (a revert
    without a message)
\<close>

datatype error =
    NotFound | DuplicateId | InvalidAmount | InvalidParty | Unauthorized | InvalidState
  | AlreadyVerified | DeadlinePassed | DeadlineNotReached | TransferFailed
  | NotVerified | InvalidAddress | Panic | NonPayable

type_synonym outcome = "error + escrow \<times> effect list"

subsection \<open>Constants and checked arithmetic\<close>

definition SLA_TIMEOUT_HOURS :: uint256 where
  "SLA_TIMEOUT_HOURS = 24"

definition PENALTY_PERCENTAGE :: uint256 where
  "PENALTY_PERCENTAGE = 10"

definition BASIS_POINTS :: uint256 where
  "BASIS_POINTS = 10000"

text \<open>Solidity's time unit \<^verbatim>\<open>1 hours\<close>, in seconds.\<close>

definition hours :: uint256 where
  "hours = 3600"

definition checked_add :: "uint256 \<Rightarrow> uint256 \<Rightarrow> error + uint256" where
  "checked_add a b = (if unat a + unat b < 2 ^ 256 then Inr (a + b) else Inl Panic)"

definition checked_mul :: "uint256 \<Rightarrow> uint256 \<Rightarrow> error + uint256" where
  "checked_mul a b = (if unat a * unat b < 2 ^ 256 then Inr (a * b) else Inl Panic)"

definition checked_sub :: "uint256 \<Rightarrow> uint256 \<Rightarrow> error + uint256" where
  "checked_sub a b = (if b \<le> a then Inr (a - b) else Inl Panic)"

subsection \<open>Storage helpers\<close>

text \<open>The modifier \<^verbatim>\<open>bookingExists\<close> and the test of \<^verbatim>\<open>getBooking\<close>.\<close>

definition bookingExists :: "escrow \<Rightarrow> string \<Rightarrow> bool" where
  "bookingExists s bid = (tourist (bookings s bid) \<noteq> 0)"

text \<open>The assignment \<^verbatim>\<open>booking.status = st\<close> through the storage pointer.\<close>

definition set_status :: "escrow \<Rightarrow> string \<Rightarrow> BookingStatus \<Rightarrow> escrow" where
  "set_status s bid st = s\<lparr>bookings := (bookings s)(bid := (bookings s bid)\<lparr>status := st\<rparr>)\<rparr>"

definition set_slaVerified :: "escrow \<Rightarrow> string \<Rightarrow> bool \<Rightarrow> escrow" where
  "set_slaVerified s bid v =
     s\<lparr>bookings := (bookings s)(bid := (bookings s bid)\<lparr>slaVerified := v\<rparr>)\<rparr>"

subsection \<open>Construction\<close>

definition constructor :: "env \<Rightarrow> escrow" where
  "constructor e =
     \<lparr>owner = msg_sender e,
      bookings = (\<lambda>_. zero_Booking),
      authorizedOracles = (\<lambda>_. False),
      arbiters = (\<lambda>_. False)(msg_sender e := True)\<rparr>"

subsection \<open>Bookings\<close>

definition createBooking :: "env \<Rightarrow> escrow \<Rightarrow> string \<Rightarrow> address \<Rightarrow> outcome" where
  "createBooking e s bid opr =
     (if \<not> (0 < msg_value e) then Inl InvalidAmount
      else if \<not> (opr \<noteq> 0) then Inl InvalidParty
      else if \<not> (opr \<noteq> msg_sender e) then Inl InvalidParty
      else if \<not> (tourist (bookings s bid) = 0) then Inl DuplicateId
      else
        (case checked_add (block_timestamp e) (SLA_TIMEOUT_HOURS * hours) of
           Inl err \<Rightarrow> Inl err
         | Inr deadline \<Rightarrow>
             Inr (s\<lparr>bookings := (bookings s)(bid :=
                     \<lparr>tourist = msg_sender e,
                      operator = opr,
                      amount = msg_value e,
                      depositTime = block_timestamp e,
                      slaDeadline = deadline,
                      status = Pending,
                      slaVerified = False,
                      bookingId = bid\<rparr>)\<rparr>,
                  [Emit (DepositMade bid (msg_sender e) opr (msg_value e))])))"

definition verifySLA :: "env \<Rightarrow> escrow \<Rightarrow> string \<Rightarrow> bool \<Rightarrow> outcome" where
  "verifySLA e s bid slaPassed =
     (if \<not> (msg_value e = 0) then Inl NonPayable
      else if \<not> authorizedOracles s (msg_sender e) then Inl Unauthorized
      else if \<not> bookingExists s bid then Inl NotFound
      else if \<not> (status (bookings s bid) = Pending) then Inl InvalidState
      else if \<not> (\<not> slaVerified (bookings s bid)) then Inl AlreadyVerified
      else if \<not> (block_timestamp e \<le> slaDeadline (bookings s bid)) then Inl DeadlinePassed
      else
        (let s1 = set_slaVerified s bid True in
         if slaPassed
         then Inr (set_status s1 bid SLAPassed,
                   [Emit (SLAPassed_ev bid (operator (bookings s bid)))])
         else Inr (set_status s1 bid SLAFailed,
                   [Emit (SLAFailed_ev bid (tourist (bookings s bid)))])))"

definition releaseToOperator :: "env \<Rightarrow> escrow \<Rightarrow> string \<Rightarrow> outcome" where
  "releaseToOperator e s bid =
     (if \<not> (msg_value e = 0) then Inl NonPayable
      else if \<not> bookingExists s bid then Inl NotFound
      else if \<not> (status (bookings s bid) = SLAPassed) then Inl InvalidState
      else if \<not> slaVerified (bookings s bid) then Inl NotVerified
      else
        (let s1 = set_status s bid Paid;
             amt = amount (bookings s1 bid)
         in if \<not> call_value e (operator (bookings s1 bid)) amt then Inl TransferFailed
            else Inr (s1, [Transfer (operator (bookings s1 bid)) amt,
                           Emit (PaidOut bid (operator (bookings s1 bid)) amt)])))"

definition refundToTourist :: "env \<Rightarrow> escrow \<Rightarrow> string \<Rightarrow> outcome" where
  "refundToTourist e s bid =
     (if \<not> (msg_value e = 0) then Inl NonPayable
      else if \<not> bookingExists s bid then Inl NotFound
      else if \<not> (status (bookings s bid) = SLAFailed) then Inl InvalidState
      else if \<not> slaVerified (bookings s bid) then Inl NotVerified
      else
        (let s1 = set_status s bid Refunded;
             refundAmount = amount (bookings s1 bid)
         in if \<not> call_value e (tourist (bookings s1 bid)) refundAmount then Inl TransferFailed
            else Inr (s1, [Transfer (tourist (bookings s1 bid)) refundAmount,
                           Emit (Refunded_ev bid (tourist (bookings s1 bid)) refundAmount)])))"

text \<open>
  The two transfers of \<^verbatim>\<open>refundWithPenalty\<close>, each made only for a non-zero value and
  each reverting the call when it fails: first the penalty to the operator, then the
  refund to the tourist.
\<close>

definition penalty_transfers ::
  "env \<Rightarrow> Booking \<Rightarrow> uint256 \<Rightarrow> uint256 \<Rightarrow> error + effect list" where
  "penalty_transfers e b penaltyAmount refundAmount =
     (if 0 < penaltyAmount \<and> \<not> call_value e (operator b) penaltyAmount then Inl TransferFailed
      else if 0 < refundAmount \<and> \<not> call_value e (tourist b) refundAmount then Inl TransferFailed
      else Inr ((if 0 < penaltyAmount then [Transfer (operator b) penaltyAmount] else []) @
                (if 0 < refundAmount then [Transfer (tourist b) refundAmount] else [])))"

definition refundWithPenalty :: "env \<Rightarrow> escrow \<Rightarrow> string \<Rightarrow> outcome" where
  "refundWithPenalty e s bid =
     (if \<not> (msg_value e = 0) then Inl NonPayable
      else if \<not> bookingExists s bid then Inl NotFound
      else if \<not> (status (bookings s bid) = SLAFailed) then Inl InvalidState
      else if \<not> slaVerified (bookings s bid) then Inl NotVerified
      else
        (let s1 = set_status s bid Refunded;
             b = bookings s1 bid
         in case checked_mul (amount b) PENALTY_PERCENTAGE of
              Inl err \<Rightarrow> Inl err
            | Inr product \<Rightarrow>
                (let penaltyAmount = product div BASIS_POINTS in
                 case checked_sub (amount b) penaltyAmount of
                   Inl err \<Rightarrow> Inl err
                 | Inr refundAmount \<Rightarrow>
                     (case penalty_transfers e b penaltyAmount refundAmount of
                        Inl err \<Rightarrow> Inl err
                      | Inr sent \<Rightarrow>
                          Inr (s1, sent @
                                 [Emit (Refunded_ev bid (tourist b) refundAmount),
                                  Emit (PaidOut bid (operator b) penaltyAmount)])))))"

definition handleTimeout :: "env \<Rightarrow> escrow \<Rightarrow> string \<Rightarrow> outcome" where
  "handleTimeout e s bid =
     (if \<not> (msg_value e = 0) then Inl NonPayable
      else if \<not> bookingExists s bid then Inl NotFound
      else if \<not> (status (bookings s bid) = Pending) then Inl InvalidState
      else if \<not> (slaDeadline (bookings s bid) < block_timestamp e) then Inl DeadlineNotReached
      else if \<not> (\<not> slaVerified (bookings s bid)) then Inl AlreadyVerified
      else
        (let s1 = set_status s bid Refunded;
             amt = amount (bookings s1 bid)
         in if \<not> call_value e (tourist (bookings s1 bid)) amt then Inl TransferFailed
            else Inr (s1, [Transfer (tourist (bookings s1 bid)) amt,
                           Emit (Refunded_ev bid (tourist (bookings s1 bid)) amt)])))"

definition raiseDispute :: "env \<Rightarrow> escrow \<Rightarrow> string \<Rightarrow> outcome" where
  "raiseDispute e s bid =
     (if \<not> (msg_value e = 0) then Inl NonPayable
      else if \<not> bookingExists s bid then Inl NotFound
      else if \<not> (msg_sender e = tourist (bookings s bid) \<or>
                  msg_sender e = operator (bookings s bid)) then Inl Unauthorized
      else if \<not> (status (bookings s bid) = SLAPassed \<or>
                  status (bookings s bid) = SLAFailed) then Inl InvalidState
      else Inr (set_status s bid Disputed,
                [Emit (Disputed_ev bid (tourist (bookings s bid)) (operator (bookings s bid)))]))"

definition resolveDispute :: "env \<Rightarrow> escrow \<Rightarrow> string \<Rightarrow> bool \<Rightarrow> outcome" where
  "resolveDispute e s bid operatorWins =
     (if \<not> (msg_value e = 0) then Inl NonPayable
      else if \<not> arbiters s (msg_sender e) then Inl Unauthorized
      else if \<not> bookingExists s bid then Inl NotFound
      else if \<not> (status (bookings s bid) = Disputed) then Inl InvalidState
      else
        (let amt = amount (bookings s bid) in
         if operatorWins
         then (let s1 = set_status s bid Paid in
               if \<not> call_value e (operator (bookings s1 bid)) amt then Inl TransferFailed
               else Inr (s1, [Transfer (operator (bookings s1 bid)) amt,
                              Emit (PaidOut bid (operator (bookings s1 bid)) amt),
                              Emit (DisputeResolved bid operatorWins amt)]))
         else (let s1 = set_status s bid Refunded in
               if \<not> call_value e (tourist (bookings s1 bid)) amt then Inl TransferFailed
               else Inr (s1, [Transfer (tourist (bookings s1 bid)) amt,
                              Emit (Refunded_ev bid (tourist (bookings s1 bid)) amt),
                              Emit (DisputeResolved bid operatorWins amt)]))))"

subsection \<open>Roles\<close>

definition authorizeOracle :: "env \<Rightarrow> escrow \<Rightarrow> address \<Rightarrow> outcome" where
  "authorizeOracle e s oracle =
     (if \<not> (msg_value e = 0) then Inl NonPayable
      else if \<not> (owner s = msg_sender e) then Inl Unauthorized
      else if \<not> (oracle \<noteq> 0) then Inl InvalidAddress
      else Inr (s\<lparr>authorizedOracles := (authorizedOracles s)(oracle := True)\<rparr>,
                [Emit (OracleAuthorized oracle)]))"

definition revokeOracle :: "env \<Rightarrow> escrow \<Rightarrow> address \<Rightarrow> outcome" where
  "revokeOracle e s oracle =
     (if \<not> (msg_value e = 0) then Inl NonPayable
      else if \<not> (owner s = msg_sender e) then Inl Unauthorized
      else Inr (s\<lparr>authorizedOracles := (authorizedOracles s)(oracle := False)\<rparr>,
                [Emit (OracleRevoked oracle)]))"

definition authorizeArbiter :: "env \<Rightarrow> escrow \<Rightarrow> address \<Rightarrow> outcome" where
  "authorizeArbiter e s arbiter =
     (if \<not> (msg_value e = 0) then Inl NonPayable
      else if \<not> (owner s = msg_sender e) then Inl Unauthorized
      else if \<not> (arbiter \<noteq> 0) then Inl InvalidAddress
      else Inr (s\<lparr>arbiters := (arbiters s)(arbiter := True)\<rparr>,
                [Emit (ArbiterAuthorized arbiter)]))"

definition revokeArbiter :: "env \<Rightarrow> escrow \<Rightarrow> address \<Rightarrow> outcome" where
  "revokeArbiter e s arbiter =
     (if \<not> (msg_value e = 0) then Inl NonPayable
      else if \<not> (owner s = msg_sender e) then Inl Unauthorized
      else Inr (s\<lparr>arbiters := (arbiters s)(arbiter := False)\<rparr>,
                [Emit (ArbiterRevoked arbiter)]))"

subsection \<open>Views\<close>

definition getBooking :: "env \<Rightarrow> escrow \<Rightarrow> string \<Rightarrow> error + Booking" where
  "getBooking e s bid =
     (if \<not> (msg_value e = 0) then Inl NonPayable
      else if \<not> (tourist (bookings s bid) \<noteq> 0) then Inl NotFound
      else Inr (bookings s bid))"

definition isTimedOut :: "env \<Rightarrow> escrow \<Rightarrow> string \<Rightarrow> error + bool" where
  "isTimedOut e s bid =
     (if \<not> (msg_value e = 0) then Inl NonPayable
      else
        (let booking = bookings s bid
         in Inr (slaDeadline booking < block_timestamp e \<and> \<not> slaVerified booking)))"

definition getTimeRemaining :: "env \<Rightarrow> escrow \<Rightarrow> string \<Rightarrow> error + uint256" where
  "getTimeRemaining e s bid =
     (if \<not> (msg_value e = 0) then Inl NonPayable
      else
        (let booking = bookings s bid
         in if slaDeadline booking \<le> block_timestamp e then Inr 0
            else checked_sub (slaDeadline booking) (block_timestamp e)))"

subsection \<open>Calls and transactions\<close>

datatype call =
    CreateBooking string address
  | VerifySLA string bool
  | ReleaseToOperator string
  | RefundToTourist string
  | RefundWithPenalty string
  | HandleTimeout string
  | RaiseDispute string
  | ResolveDispute string bool
  | AuthorizeOracle address
  | RevokeOracle address
  | AuthorizeArbiter address
  | RevokeArbiter address
  | GetBooking string
  | IsTimedOut string
  | GetTimeRemaining string

datatype retval = NoValue | BookingValue Booking | BoolValue bool | UintValue uint256

text \<open>A state-changing function returns nothing; a view leaves the storage alone.\<close>

definition returning :: "outcome \<Rightarrow> error + escrow \<times> retval \<times> effect list" where
  "returning r = (case r of Inl err \<Rightarrow> Inl err | Inr (s', effs) \<Rightarrow> Inr (s', NoValue, effs))"

definition viewing :: "escrow \<Rightarrow> error + retval \<Rightarrow> error + escrow \<times> retval \<times> effect list" where
  "viewing s r = (case r of Inl err \<Rightarrow> Inl err | Inr v \<Rightarrow> Inr (s, v, []))"

fun invoke :: "env \<Rightarrow> escrow \<Rightarrow> call \<Rightarrow> error + escrow \<times> retval \<times> effect list" where
  "invoke e s (CreateBooking bid opr) = returning (createBooking e s bid opr)"
| "invoke e s (VerifySLA bid slaPassed) = returning (verifySLA e s bid slaPassed)"
| "invoke e s (ReleaseToOperator bid) = returning (releaseToOperator e s bid)"
| "invoke e s (RefundToTourist bid) = returning (refundToTourist e s bid)"
| "invoke e s (RefundWithPenalty bid) = returning (refundWithPenalty e s bid)"
| "invoke e s (HandleTimeout bid) = returning (handleTimeout e s bid)"
| "invoke e s (RaiseDispute bid) = returning (raiseDispute e s bid)"
| "invoke e s (ResolveDispute bid operatorWins) = returning (resolveDispute e s bid operatorWins)"
| "invoke e s (AuthorizeOracle a) = returning (authorizeOracle e s a)"
| "invoke e s (RevokeOracle a) = returning (revokeOracle e s a)"
| "invoke e s (AuthorizeArbiter a) = returning (authorizeArbiter e s a)"
| "invoke e s (RevokeArbiter a) = returning (revokeArbiter e s a)"
| "invoke e s (GetBooking bid) = viewing s (map_sum id BookingValue (getBooking e s bid))"
| "invoke e s (IsTimedOut bid) = viewing s (map_sum id BoolValue (isTimedOut e s bid))"
| "invoke e s (GetTimeRemaining bid) =
     viewing s (map_sum id UintValue (getTimeRemaining e s bid))"

text \<open>
  A transaction: the storage after the call together with what the caller gets back.
  A call that reverts leaves the storage as it was, makes no transfer and emits nothing.
\<close>

definition transact :: "env \<Rightarrow> escrow \<Rightarrow> call \<Rightarrow> escrow \<times> (error + retval \<times> effect list)" where
  "transact e s c =
     (case invoke e s c of
        Inl err \<Rightarrow> (s, Inl err)
      | Inr (s', v, effs) \<Rightarrow> (s', Inr (v, effs)))"

text \<open>The storage after a sequence of transactions, each with its own environment.\<close>

fun run :: "escrow \<Rightarrow> (env \<times> call) list \<Rightarrow> escrow" where
  "run s [] = s"
| "run s ((e, c) # cs) = run (fst (transact e s c)) cs"

text \<open>The reachable storages: those a deployment and a sequence of transactions lead to.\<close>

inductive reachable :: "escrow \<Rightarrow> bool" where
  deployed: "reachable (constructor e)"
| transacted: "reachable s \<Longrightarrow> reachable (fst (transact e s c))"

subsection \<open>Payouts\<close>

text \<open>The transfers among the effects of a call, and the total value they move.\<close>

fun transfers :: "effect list \<Rightarrow> (address \<times> uint256) list" where
  "transfers [] = []"
| "transfers (Transfer a v # effs) = (a, v) # transfers effs"
| "transfers (Emit ev # effs) = transfers effs"

definition total_paid :: "effect list \<Rightarrow> nat" where
  "total_paid effs = sum_list (map (\<lambda>(a, v). unat v) (transfers effs))"

subsection \<open>Example ledgers\<close>

text \<open>
  Concrete ledgers for the worked examples below. Address 1 deploys the contract and
  authorises address 4 as oracle; address 2 books with operator 3 at time 1000, so the
  deadline is 1000 + 86400 = 87400; every transfer succeeds.
\<close>

definition always_ok :: "address \<Rightarrow> uint256 \<Rightarrow> bool" where
  "always_ok a x = True"

definition calling :: "address \<Rightarrow> uint256 \<Rightarrow> uint256 \<Rightarrow> env" where
  "calling sender val t =
     \<lparr>msg_sender = sender, msg_value = val, block_timestamp = t, call_value = always_ok\<rparr>"

definition ledger_pending :: "string \<Rightarrow> uint256 \<Rightarrow> escrow" where
  "ledger_pending bid amt =
     run (constructor (calling 1 0 0))
       [(calling 1 0 10, AuthorizeOracle 4),
        (calling 2 amt 1000, CreateBooking bid 3)]"

definition ledger_verified :: "string \<Rightarrow> uint256 \<Rightarrow> bool \<Rightarrow> escrow" where
  "ledger_verified bid amt passed =
     run (ledger_pending bid amt) [(calling 4 0 2000, VerifySLA bid passed)]"

definition ledger_paid :: escrow where
  "ledger_paid = run (ledger_verified ''b1'' 100 True) [(calling 9 0 3000, ReleaseToOperator ''b1'')]"

text \<open>An environment in which every transfer fails.\<close>

definition never_ok :: "address \<Rightarrow> uint256 \<Rightarrow> bool" where
  "never_ok a x = False"

definition refusing :: "address \<Rightarrow> uint256 \<Rightarrow> uint256 \<Rightarrow> env" where
  "refusing sender val t =
     \<lparr>msg_sender = sender, msg_value = val, block_timestamp = t, call_value = never_ok\<rparr>"

text \<open>An environment in which transfers to one address succeed and all others fail.\<close>

definition only_to :: "address \<Rightarrow> address \<Rightarrow> uint256 \<Rightarrow> bool" where
  "only_to r a x = (a = r)"

definition paying_only :: "address \<Rightarrow> address \<Rightarrow> uint256 \<Rightarrow> uint256 \<Rightarrow> env" where
  "paying_only r sender val t =
     \<lparr>msg_sender = sender, msg_value = val, block_timestamp = t, call_value = only_to r\<rparr>"

text \<open>The ledger after its owner has revoked its own arbiter role.\<close>

definition ledger_self_revoked :: escrow where
  "ledger_self_revoked = run (constructor (calling 1 0 0)) [(calling 1 0 10, RevokeArbiter 1)]"

section \<open>Properties\<close>

subsection \<open>Unfolding\<close>

lemmas op_defs = createBooking_def verifySLA_def releaseToOperator_def refundToTourist_def
  refundWithPenalty_def handleTimeout_def raiseDispute_def resolveDispute_def
  authorizeOracle_def revokeOracle_def authorizeArbiter_def revokeArbiter_def

lemmas view_defs = getBooking_def isTimedOut_def getTimeRemaining_def

lemmas storage_defs = bookingExists_def set_status_def set_slaVerified_def

lemma unat_penalty:
  assumes "checked_mul a PENALTY_PERCENTAGE = Inr p"
  shows "unat (p div BASIS_POINTS) = unat a * 10 div 10000"
proof -
  from assms have lt: "unat a * unat (10 :: uint256) < 2 ^ LENGTH(256)" and p: "p = a * 10"
    by (auto simp: checked_mul_def PENALTY_PERCENTAGE_def split: if_splits)
  from lt have "unat (a * 10) = unat a * unat (10 :: uint256)"
    by (simp only: unat_mult_lem)
  then show ?thesis
    by (simp add: p BASIS_POINTS_def unat_div)
qed

lemma penalty_le:
  assumes "checked_mul a PENALTY_PERCENTAGE = Inr p"
  shows "p div BASIS_POINTS \<le> a"
proof -
  have "unat (p div BASIS_POINTS) \<le> unat a"
    by (simp add: unat_penalty [OF assms])
  then show ?thesis by (simp add: word_le_nat_alt)
qed

lemma unat_refund:
  assumes "checked_mul a PENALTY_PERCENTAGE = Inr p"
    and "checked_sub a (p div BASIS_POINTS) = Inr r"
  shows "unat r = unat a - unat a * 10 div 10000"
proof -
  from assms(2) have r: "r = a - p div BASIS_POINTS"
    by (auto simp: checked_sub_def split: if_splits)
  show ?thesis
    by (simp add: r unat_sub [OF penalty_le [OF assms(1)]] unat_penalty [OF assms(1)])
qed

lemma total_paid_penalty_transfers:
  assumes "penalty_transfers e b p r = Inr sent"
  shows "total_paid (sent @ [Emit ev1, Emit ev2]) = unat p + unat r"
  using assms
  by (auto simp: penalty_transfers_def total_paid_def word_greater_zero_iff split: if_splits)

subsection \<open>What a successful call does to one booking\<close>

lemma createBooking_booking:
  assumes "createBooking e s bid' opr = Inr (s', effs)"
  shows "bookings s' bid = bookings s bid \<or>
         (bid = bid' \<and> tourist (bookings s bid) = 0 \<and> status (bookings s' bid) = Pending \<and>
          \<not> slaVerified (bookings s' bid))"
  using assms by (auto simp: createBooking_def split: if_splits sum.splits)

lemma verifySLA_booking:
  assumes "verifySLA e s bid' p = Inr (s', effs)"
  shows "bookings s' bid = bookings s bid \<or>
         (bid = bid' \<and> status (bookings s bid) = Pending \<and> bookingExists s bid \<and>
          bookings s' bid = (bookings s bid)\<lparr>slaVerified := True,
             status := (if p then SLAPassed else SLAFailed)\<rparr>)"
  using assms by (auto simp: verifySLA_def storage_defs Let_def split: if_splits)

lemma payout_booking:
  assumes "f \<in> {releaseToOperator, refundToTourist, refundWithPenalty, handleTimeout}"
    and "f e s bid' = Inr (s', effs)"
  shows "(bookings s' bid = bookings s bid \<or>
          (bid = bid' \<and> bookingExists s bid \<and> status (bookings s bid) \<in> {Pending, SLAPassed, SLAFailed} \<and>
           (\<exists>st \<in> {Refunded, Paid}. bookings s' bid = (bookings s bid)\<lparr>status := st\<rparr>)))"
  using assms
  by (auto simp: op_defs storage_defs Let_def split: if_splits sum.splits)

lemma raiseDispute_booking:
  assumes "raiseDispute e s bid' = Inr (s', effs)"
  shows "bookings s' bid = bookings s bid \<or>
         (bid = bid' \<and> bookingExists s bid \<and> status (bookings s bid) \<in> {SLAPassed, SLAFailed} \<and>
          bookings s' bid = (bookings s bid)\<lparr>status := Disputed\<rparr>)"
  using assms by (auto simp: raiseDispute_def storage_defs split: if_splits)

lemma resolveDispute_booking:
  assumes "resolveDispute e s bid' w = Inr (s', effs)"
  shows "bookings s' bid = bookings s bid \<or>
         (bid = bid' \<and> bookingExists s bid \<and> status (bookings s bid) = Disputed \<and>
          bookings s' bid = (bookings s bid)\<lparr>status := (if w then Paid else Refunded)\<rparr>)"
  using assms by (auto simp: resolveDispute_def storage_defs Let_def split: if_splits)

lemma roles_booking:
  assumes "f \<in> {authorizeOracle, revokeOracle, authorizeArbiter, revokeArbiter}"
    and "f e s a = Inr (s', effs)"
  shows "bookings s' = bookings s"
  using assms by (auto simp: op_defs split: if_splits)

lemma views_storage:
  assumes "c \<in> {GetBooking bid, IsTimedOut bid, GetTimeRemaining bid}"
    and "invoke e s c = Inr (s', v, effs)"
  shows "s' = s \<and> effs = []"
  using assms by (auto simp: viewing_def split: sum.splits)

lemma invoke_cases:
  assumes "invoke e s c = Inr (s', v, effs)"
  obtains
    (create) bid' opr where "c = CreateBooking bid' opr" "createBooking e s bid' opr = Inr (s', effs)"
  | (verify) bid' p where "c = VerifySLA bid' p" "verifySLA e s bid' p = Inr (s', effs)"
  | (payout) bid' f where "f \<in> {releaseToOperator, refundToTourist, refundWithPenalty, handleTimeout}"
      "f e s bid' = Inr (s', effs)"
  | (dispute) bid' where "c = RaiseDispute bid'" "raiseDispute e s bid' = Inr (s', effs)"
  | (resolve) bid' w where "c = ResolveDispute bid' w" "resolveDispute e s bid' w = Inr (s', effs)"
  | (other) "bookings s' = bookings s"
proof (cases c)
  case (CreateBooking bid' opr)
  with assms show ?thesis by (intro create [of bid' opr]) (auto simp: returning_def split: sum.splits)
next
  case (VerifySLA bid' p)
  with assms show ?thesis by (intro verify [of bid' p]) (auto simp: returning_def split: sum.splits)
next
  case (ReleaseToOperator bid')
  with assms show ?thesis
    by (intro payout [of releaseToOperator bid']) (auto simp: returning_def split: sum.splits)
next
  case (RefundToTourist bid')
  with assms show ?thesis
    by (intro payout [of refundToTourist bid']) (auto simp: returning_def split: sum.splits)
next
  case (RefundWithPenalty bid')
  with assms show ?thesis
    by (intro payout [of refundWithPenalty bid']) (auto simp: returning_def split: sum.splits)
next
  case (HandleTimeout bid')
  with assms show ?thesis
    by (intro payout [of handleTimeout bid']) (auto simp: returning_def split: sum.splits)
next
  case (RaiseDispute bid')
  with assms show ?thesis by (intro dispute [of bid']) (auto simp: returning_def split: sum.splits)
next
  case (ResolveDispute bid' w)
  with assms show ?thesis by (intro resolve [of bid' w]) (auto simp: returning_def split: sum.splits)
next
  case (AuthorizeOracle a)
  with assms show ?thesis
    by (intro other) (auto simp: returning_def authorizeOracle_def split: sum.splits if_splits)
next
  case (RevokeOracle a)
  with assms show ?thesis
    by (intro other) (auto simp: returning_def revokeOracle_def split: sum.splits if_splits)
next
  case (AuthorizeArbiter a)
  with assms show ?thesis
    by (intro other) (auto simp: returning_def authorizeArbiter_def split: sum.splits if_splits)
next
  case (RevokeArbiter a)
  with assms show ?thesis
    by (intro other) (auto simp: returning_def revokeArbiter_def split: sum.splits if_splits)
next
  case (GetBooking bid')
  with assms show ?thesis by (intro other) (auto simp: viewing_def split: sum.splits)
next
  case (IsTimedOut bid')
  with assms show ?thesis by (intro other) (auto simp: viewing_def split: sum.splits)
next
  case (GetTimeRemaining bid')
  with assms show ?thesis by (intro other) (auto simp: viewing_def split: sum.splits)
qed

lemma pending_unverified_invoke:
  assumes "invoke e s c = Inr (s', v, effs)"
    and "status (bookings s bid) = Pending \<Longrightarrow> \<not> slaVerified (bookings s bid)"
    and "status (bookings s' bid) = Pending"
  shows "\<not> slaVerified (bookings s' bid)"
  using assms(1)
proof (cases rule: invoke_cases)
  case (create bid' opr)
  from createBooking_booking [OF create(2), of bid] assms(2,3) show ?thesis by auto
next
  case (verify bid' p)
  from verifySLA_booking [OF verify(2), of bid] assms(2,3) show ?thesis by (auto split: if_splits)
next
  case (payout bid' f)
  from payout_booking [OF payout, of bid] assms(2,3) show ?thesis by auto
next
  case (dispute bid')
  from raiseDispute_booking [OF dispute(2), of bid] assms(2,3) show ?thesis by auto
next
  case (resolve bid' w)
  from resolveDispute_booking [OF resolve(2), of bid] assms(2,3) show ?thesis
    by (auto split: if_splits)
next
  case other
  with assms(2,3) show ?thesis by simp
qed

lemma transact_fst:
  "fst (transact e s c) = (case invoke e s c of Inl err \<Rightarrow> s | Inr (s', v, effs) \<Rightarrow> s')"
  by (simp add: transact_def split: sum.splits prod.splits)

lemma pending_unverified_reachable:
  assumes "reachable s"
  shows "status (bookings s bid) = Pending \<Longrightarrow> \<not> slaVerified (bookings s bid)"
  using assms
proof (induction arbitrary: bid rule: reachable.induct)
  case (deployed e)
  then show ?case by (simp add: constructor_def zero_Booking_def)
next
  case (transacted s e c)
  show ?case
  proof (cases "invoke e s c")
    case (Inl err)
    with transacted show ?thesis by (simp add: transact_fst)
  next
    case (Inr r)
    then obtain s' v effs where r: "invoke e s c = Inr (s', v, effs)" by (cases r) auto
    with transacted.prems have "status (bookings s' bid) = Pending" by (simp add: transact_fst)
    from pending_unverified_invoke [OF r transacted.IH this] show ?thesis
      using r by (simp add: transact_fst)
  qed
qed

lemma reachable_run: "reachable s \<Longrightarrow> reachable (run s cs)"
  by (induction cs arbitrary: s) (auto simp: reachable.transacted)

subsection \<open>The example ledgers evaluated\<close>

lemmas run_defs = calling_def always_ok_def transact_def returning_def viewing_def
  constructor_def zero_Booking_def op_defs view_defs storage_defs penalty_transfers_def
  checked_add_def checked_mul_def checked_sub_def
  SLA_TIMEOUT_HOURS_def PENALTY_PERCENTAGE_def BASIS_POINTS_def hours_def Let_def

lemma ledger_pending_b1:
  "bookings (ledger_pending ''b1'' 100) ''b1'' =
     \<lparr>tourist = 2, operator = 3, amount = 100, depositTime = 1000, slaDeadline = 87400,
      status = Pending, slaVerified = False, bookingId = ''b1''\<rparr>"
  by (simp add: ledger_pending_def run_defs)

lemma ledger_pending_oracle: "authorizedOracles (ledger_pending ''b1'' 100) 4"
  by (simp add: ledger_pending_def run_defs)

lemma ledger_failed_b2:
  "bookings (ledger_verified ''b2'' 100 False) ''b2'' =
     \<lparr>tourist = 2, operator = 3, amount = 100, depositTime = 1000, slaDeadline = 87400,
      status = SLAFailed, slaVerified = True, bookingId = ''b2''\<rparr>"
  by (simp add: ledger_verified_def ledger_pending_def run_defs)

lemma ledger_failed_7:
  "bookings (ledger_verified ''b2'' 7 False) ''b2'' =
     \<lparr>tourist = 2, operator = 3, amount = 7, depositTime = 1000, slaDeadline = 87400,
      status = SLAFailed, slaVerified = True, bookingId = ''b2''\<rparr>"
  by (simp add: ledger_verified_def ledger_pending_def run_defs)

lemma ledger_failed_5000:
  "bookings (ledger_verified ''b2'' 5000 False) ''b2'' =
     \<lparr>tourist = 2, operator = 3, amount = 5000, depositTime = 1000, slaDeadline = 87400,
      status = SLAFailed, slaVerified = True, bookingId = ''b2''\<rparr>"
  by (simp add: ledger_verified_def ledger_pending_def run_defs)

lemma ledger_passed_b1:
  "bookings (ledger_verified ''b1'' 100 True) ''b1'' =
     \<lparr>tourist = 2, operator = 3, amount = 100, depositTime = 1000, slaDeadline = 87400,
      status = SLAPassed, slaVerified = True, bookingId = ''b1''\<rparr>"
  by (simp add: ledger_verified_def ledger_pending_def run_defs)

lemma ledger_paid_b1:
  "bookings ledger_paid ''b1'' =
     \<lparr>tourist = 2, operator = 3, amount = 100, depositTime = 1000, slaDeadline = 87400,
      status = Paid, slaVerified = True, bookingId = ''b1''\<rparr>"
  by (simp add: ledger_paid_def run_defs ledger_passed_b1)

lemma reachable_ledger_pending: "reachable (ledger_pending bid amt)"
  unfolding ledger_pending_def by (intro reachable_run reachable.deployed)

lemma reachable_ledger_verified: "reachable (ledger_verified bid amt p)"
  unfolding ledger_verified_def by (intro reachable_run reachable_ledger_pending)

lemma reachable_ledger_paid: "reachable ledger_paid"
  unfolding ledger_paid_def by (intro reachable_run reachable_ledger_verified)

subsection \<open>A pending booking is never verified\<close>

text \<open>
  Claim C10. In every reachable ledger, a booking whose status is \<open>Pending\<close> has
  \<open>slaVerified = False\<close>. Moreover a transaction that turns \<open>slaVerified\<close> of a booking
  from false to true is a call of \<^verbatim>\<open>verifySLA\<close> on that booking, and it leaves the
  booking in \<open>SLAPassed\<close> or \<open>SLAFailed\<close>: a verified booking is never pending.
\<close>

theorem pending_never_verified:
  "(reachable s \<and> status (bookings s bid) = Pending \<longrightarrow> \<not> slaVerified (bookings s bid)) \<and>
   (transact e s0 c = (s1, r) \<and> \<not> slaVerified (bookings s0 bid) \<and> slaVerified (bookings s1 bid)
      \<longrightarrow> (\<exists>p. c = VerifySLA bid p) \<and> status (bookings s1 bid) \<in> {SLAPassed, SLAFailed})"
proof (intro conjI impI)
  assume "reachable s \<and> status (bookings s bid) = Pending"
  then show "\<not> slaVerified (bookings s bid)"
    using pending_unverified_reachable by blast
next
  assume a: "transact e s0 c = (s1, r) \<and> \<not> slaVerified (bookings s0 bid) \<and> slaVerified (bookings s1 bid)"
  then have ne: "bookings s1 bid \<noteq> bookings s0 bid" by auto
  from a obtain v effs where i: "invoke e s0 c = Inr (s1, v, effs)"
    by (auto simp: transact_def split: sum.splits)
  from i have "(\<exists>p. c = VerifySLA bid p) \<and> status (bookings s1 bid) \<in> {SLAPassed, SLAFailed}"
  proof (cases rule: invoke_cases)
    case (create bid' opr)
    from createBooking_booking [OF create(2), of bid] a show ?thesis by auto
  next
    case (verify bid' p)
    from verifySLA_booking [OF verify(2), of bid] a verify(1) show ?thesis
      by (auto split: if_splits)
  next
    case (payout bid' f)
    from payout_booking [OF payout, of bid] a show ?thesis by auto
  next
    case (dispute bid')
    from raiseDispute_booking [OF dispute(2), of bid] a show ?thesis by auto
  next
    case (resolve bid' w)
    from resolveDispute_booking [OF resolve(2), of bid] a show ?thesis by auto
  next
    case other
    with a show ?thesis by simp
  qed
  then show "\<exists>p. c = VerifySLA bid p" and "status (bookings s1 bid) \<in> {SLAPassed, SLAFailed}"
    by auto
qed

theorem pending_never_verified_witness:
  "reachable (ledger_pending ''b1'' 100) \<and>
   status (bookings (ledger_pending ''b1'' 100) ''b1'') = Pending \<and>
   \<not> slaVerified (bookings (ledger_pending ''b1'' 100) ''b1'') \<and>
   transact (calling 4 0 2000) (ledger_pending ''b1'' 100) (VerifySLA ''b1'' True) =
     (ledger_verified ''b1'' 100 True, Inr (NoValue, [Emit (SLAPassed_ev ''b1'' 3)])) \<and>
   slaVerified (bookings (ledger_verified ''b1'' 100 True) ''b1'') \<and>
   status (bookings (ledger_verified ''b1'' 100 True) ''b1'') \<in> {SLAPassed, SLAFailed}"
proof -
  have t: "transact (calling 4 0 2000) (ledger_pending ''b1'' 100) (VerifySLA ''b1'' True) =
     (ledger_verified ''b1'' 100 True, Inr (NoValue, [Emit (SLAPassed_ev ''b1'' 3)]))"
    by (simp add: ledger_verified_def ledger_pending_b1 ledger_pending_oracle run_defs)
  from pending_never_verified [of "ledger_pending ''b1'' 100" "''b1''" "calling 4 0 2000"
      "ledger_pending ''b1'' 100" "VerifySLA ''b1'' True" "ledger_verified ''b1'' 100 True"
      "Inr (NoValue, [Emit (SLAPassed_ev ''b1'' 3)])"]
  show ?thesis
    using t reachable_ledger_pending by (simp add: ledger_pending_b1 ledger_passed_b1)
qed

subsection \<open>Terminal states are final\<close>

lemma terminal_booking_kept:
  assumes "bookingExists s bid" and "status (bookings s bid) \<in> {Refunded, Paid}"
  shows "bookings (fst (transact e s c)) bid = bookings s bid"
proof (cases "invoke e s c")
  case (Inl err)
  then show ?thesis by (simp add: transact_fst)
next
  case (Inr r)
  then obtain s' v effs where r: "invoke e s c = Inr (s', v, effs)" by (cases r) auto
  from r have "bookings s' bid = bookings s bid"
  proof (cases rule: invoke_cases)
    case (create bid' opr)
    from createBooking_booking [OF create(2), of bid] assms show ?thesis
      by (auto simp: bookingExists_def)
  next
    case (verify bid' p)
    from verifySLA_booking [OF verify(2), of bid] assms show ?thesis by auto
  next
    case (payout bid' f)
    from payout_booking [OF payout, of bid] assms show ?thesis by auto
  next
    case (dispute bid')
    from raiseDispute_booking [OF dispute(2), of bid] assms show ?thesis by auto
  next
    case (resolve bid' w)
    from resolveDispute_booking [OF resolve(2), of bid] assms show ?thesis by auto
  next
    case other
    then show ?thesis by simp
  qed
  with r show ?thesis by (simp add: transact_fst)
qed

text \<open>
  Claim C2. Once an existing booking is \<open>Refunded\<close> or \<open>Paid\<close>, each of \<^verbatim>\<open>verifySLA\<close>,
  \<^verbatim>\<open>releaseToOperator\<close>, \<^verbatim>\<open>refundToTourist\<close>, \<^verbatim>\<open>refundWithPenalty\<close>, \<^verbatim>\<open>handleTimeout\<close>,
  \<^verbatim>\<open>raiseDispute\<close> and \<^verbatim>\<open>resolveDispute\<close> called on it fails and leaves the ledger as it
  was, and no transaction whatever, on this or another booking, changes any field of it.
\<close>

theorem terminal_is_final:
  assumes "bookingExists s bid" and "status (bookings s bid) \<in> {Refunded, Paid}"
  shows "(c \<in> {VerifySLA bid p, ReleaseToOperator bid, RefundToTourist bid, RefundWithPenalty bid,
               HandleTimeout bid, RaiseDispute bid, ResolveDispute bid w}
            \<longrightarrow> (\<exists>err. transact e s c = (s, Inl err))) \<and>
         bookings (fst (transact e' s c')) bid = bookings s bid"
proof (intro conjI impI)
  assume "c \<in> {VerifySLA bid p, ReleaseToOperator bid, RefundToTourist bid, RefundWithPenalty bid,
               HandleTimeout bid, RaiseDispute bid, ResolveDispute bid w}"
  with assms show "\<exists>err. transact e s c = (s, Inl err)"
    by (auto simp: transact_def returning_def op_defs)
next
  from assms show "bookings (fst (transact e' s c')) bid = bookings s bid"
    by (rule terminal_booking_kept)
qed

theorem terminal_is_final_witness:
  "bookingExists ledger_paid ''b1'' \<and> status (bookings ledger_paid ''b1'') \<in> {Refunded, Paid} \<and>
   (\<exists>err. transact (calling 2 0 4000) ledger_paid (RaiseDispute ''b1'') = (ledger_paid, Inl err)) \<and>
   bookings (fst (transact (calling 2 50 5000) ledger_paid (CreateBooking ''b1'' 3))) ''b1'' =
     bookings ledger_paid ''b1''"
proof -
  have h1: "bookingExists ledger_paid ''b1''" by (simp add: bookingExists_def ledger_paid_b1)
  have h2: "status (bookings ledger_paid ''b1'') \<in> {Refunded, Paid}" by (simp add: ledger_paid_b1)
  from terminal_is_final [OF h1 h2, of "RaiseDispute ''b1''" True True "calling 2 0 4000"
      "calling 2 50 5000" "CreateBooking ''b1'' 3"] h1 h2
  show ?thesis by simp
qed

subsection \<open>The deadline instant\<close>

text \<open>
  Claim C3. Take a booking that exists, is \<open>Pending\<close> and not yet verified, an
  authorised oracle as the caller of \<^verbatim>\<open>verifySLA\<close>, and calls that carry no value
  (neither function is payable). Then \<^verbatim>\<open>verifySLA\<close> succeeds when the call time is at
  most the deadline and fails with \<open>DeadlinePassed\<close> when it is strictly later;
  \<^verbatim>\<open>handleTimeout\<close> succeeds only strictly after the deadline (and does succeed then,
  when the refund transfer goes through) and fails with \<open>DeadlineNotReached\<close> at or
  before it. So two calls made at the same instant never both succeed.
\<close>

theorem deadline_tie_break:
  assumes "bookingExists s bid" and "status (bookings s bid) = Pending"
    and "\<not> slaVerified (bookings s bid)" and "authorizedOracles s (msg_sender e)"
    and "msg_value e = 0" and "msg_value e' = 0"
  shows "(block_timestamp e \<le> slaDeadline (bookings s bid)
            \<longrightarrow> (\<exists>out. verifySLA e s bid p = Inr out)) \<and>
         (slaDeadline (bookings s bid) < block_timestamp e
            \<longrightarrow> verifySLA e s bid p = Inl DeadlinePassed) \<and>
         ((\<exists>out. handleTimeout e' s bid = Inr out)
            \<longrightarrow> slaDeadline (bookings s bid) < block_timestamp e') \<and>
         (slaDeadline (bookings s bid) < block_timestamp e' \<and>
          call_value e' (tourist (bookings s bid)) (amount (bookings s bid))
            \<longrightarrow> (\<exists>out. handleTimeout e' s bid = Inr out)) \<and>
         (block_timestamp e' \<le> slaDeadline (bookings s bid)
            \<longrightarrow> handleTimeout e' s bid = Inl DeadlineNotReached) \<and>
         (block_timestamp e' = block_timestamp e
            \<longrightarrow> \<not> ((\<exists>out. verifySLA e s bid p = Inr out) \<and>
                    (\<exists>out. handleTimeout e' s bid = Inr out)))"
  using assms
  by (auto simp: verifySLA_def handleTimeout_def storage_defs Let_def not_le not_less)

theorem deadline_tie_break_witness:
  "bookingExists (ledger_pending ''b1'' 100) ''b1'' \<and>
   status (bookings (ledger_pending ''b1'' 100) ''b1'') = Pending \<and>
   \<not> slaVerified (bookings (ledger_pending ''b1'' 100) ''b1'') \<and>
   authorizedOracles (ledger_pending ''b1'' 100) (msg_sender (calling 4 0 87400)) \<and>
   msg_value (calling 4 0 87400) = 0 \<and> msg_value (calling 9 0 87400) = 0 \<and>
   slaDeadline (bookings (ledger_pending ''b1'' 100) ''b1'') = 87400 \<and>
   (\<exists>out. verifySLA (calling 4 0 87400) (ledger_pending ''b1'' 100) ''b1'' True = Inr out) \<and>
   handleTimeout (calling 9 0 87400) (ledger_pending ''b1'' 100) ''b1'' = Inl DeadlineNotReached"
proof -
  have h1: "bookingExists (ledger_pending ''b1'' 100) ''b1''"
    by (simp add: bookingExists_def ledger_pending_b1)
  have h2: "status (bookings (ledger_pending ''b1'' 100) ''b1'') = Pending"
    by (simp add: ledger_pending_b1)
  have h3: "\<not> slaVerified (bookings (ledger_pending ''b1'' 100) ''b1'')"
    by (simp add: ledger_pending_b1)
  have h4: "authorizedOracles (ledger_pending ''b1'' 100) (msg_sender (calling 4 0 87400))"
    by (simp add: calling_def ledger_pending_oracle)
  have h5: "msg_value (calling 4 0 87400) = 0" by (simp add: calling_def)
  have h6: "msg_value (calling 9 0 87400) = 0" by (simp add: calling_def)
  from deadline_tie_break [OF h1 h2 h3 h4 h5 h6, of True] h1 h2 h3 h4 h5 h6
  show ?thesis by (simp add: ledger_pending_b1 calling_def)
qed

subsection \<open>Creating a booking\<close>

text \<open>
  Claim C5. \<^verbatim>\<open>createBooking\<close> checks in this order: it fails with \<open>InvalidAmount\<close> when
  the value sent is zero (an unsigned value is never negative); otherwise with
  \<open>InvalidParty\<close> when the operator is the caller or the zero address; otherwise with
  \<open>DuplicateId\<close> when the booking exists. When all checks pass and the deadline does
  not overflow it succeeds. On success the new booking is \<open>Pending\<close> and unverified,
  has the caller as tourist, the given operator and the value sent as amount, and its
  deadline is the deposit time plus \<open>SLA_TIMEOUT_HOURS = 24\<close> hours, the deposit time
  and the deadline being counted in seconds.
\<close>

theorem createBooking_contract:
  "(\<not> 0 < msg_value e \<longrightarrow> createBooking e s bid opr = Inl InvalidAmount) \<and>
   (0 < msg_value e \<and> (opr = msg_sender e \<or> opr = 0)
      \<longrightarrow> createBooking e s bid opr = Inl InvalidParty) \<and>
   (0 < msg_value e \<and> opr \<noteq> msg_sender e \<and> opr \<noteq> 0 \<and> bookingExists s bid
      \<longrightarrow> createBooking e s bid opr = Inl DuplicateId) \<and>
   (0 < msg_value e \<and> opr \<noteq> msg_sender e \<and> opr \<noteq> 0 \<and> \<not> bookingExists s bid \<and>
    unat (block_timestamp e) + 24 * 3600 < 2 ^ 256
      \<longrightarrow> (\<exists>out. createBooking e s bid opr = Inr out)) \<and>
   (createBooking e s bid opr = Inr (s', effs)
      \<longrightarrow> tourist (bookings s' bid) = msg_sender e \<and>
          operator (bookings s' bid) = opr \<and>
          amount (bookings s' bid) = msg_value e \<and>
          status (bookings s' bid) = Pending \<and>
          \<not> slaVerified (bookings s' bid) \<and>
          depositTime (bookings s' bid) = block_timestamp e \<and>
          unat (slaDeadline (bookings s' bid)) =
            unat (depositTime (bookings s' bid)) + unat SLA_TIMEOUT_HOURS * unat hours \<and>
          unat SLA_TIMEOUT_HOURS = 24)"
  by (auto simp: createBooking_def bookingExists_def checked_add_def SLA_TIMEOUT_HOURS_def
      hours_def unat_word_ariths split: if_splits)

theorem createBooking_contract_witness:
  "createBooking (calling 2 0 1000) (constructor (calling 1 0 0)) ''b1'' 3 = Inl InvalidAmount \<and>
   createBooking (calling 2 100 1000) (constructor (calling 1 0 0)) ''b1'' 2 = Inl InvalidParty \<and>
   createBooking (calling 2 50 5000) ledger_paid ''b1'' 3 = Inl DuplicateId \<and>
   (\<exists>out. createBooking (calling 2 100 1000) (constructor (calling 1 0 0)) ''b1'' 3 = Inr out) \<and>
   unat (slaDeadline (bookings (ledger_pending ''b1'' 100) ''b1'')) = 1000 + 24 * 3600"
proof -
  have ex: "bookingExists ledger_paid ''b1''"
    by (simp add: bookingExists_def ledger_paid_b1)
  have nex: "\<not> bookingExists (constructor (calling 1 0 0)) ''b1''"
    by (simp add: bookingExists_def constructor_def zero_Booking_def)
  have a: "createBooking (calling 2 0 1000) (constructor (calling 1 0 0)) ''b1'' 3 = Inl InvalidAmount"
    using createBooking_contract [of "calling 2 0 1000" "constructor (calling 1 0 0)" "''b1''" 3]
    by (simp add: calling_def)
  have b: "createBooking (calling 2 100 1000) (constructor (calling 1 0 0)) ''b1'' 2 = Inl InvalidParty"
    using createBooking_contract [of "calling 2 100 1000" "constructor (calling 1 0 0)" "''b1''" 2]
    by (simp add: calling_def)
  have c: "createBooking (calling 2 50 5000) ledger_paid ''b1'' 3 = Inl DuplicateId"
    using createBooking_contract [of "calling 2 50 5000" ledger_paid "''b1''" 3] ex
    by (simp add: calling_def)
  have d: "\<exists>out. createBooking (calling 2 100 1000) (constructor (calling 1 0 0)) ''b1'' 3 = Inr out"
    using createBooking_contract [of "calling 2 100 1000" "constructor (calling 1 0 0)" "''b1''" 3] nex
    by (simp add: calling_def)
  have e: "unat (slaDeadline (bookings (ledger_pending ''b1'' 100) ''b1'')) = 1000 + 24 * 3600"
    by (simp add: ledger_pending_b1)
  from a b c d e show ?thesis by blast
qed

subsection \<open>All or nothing\<close>

lemma transfers_ok:
  assumes "invoke e s c = Inr (s', v, effs)" and "(a, x) \<in> set (transfers effs)"
  shows "call_value e a x"
  using assms
  by (cases c)
    (auto simp: returning_def viewing_def op_defs view_defs storage_defs penalty_transfers_def Let_def
      split: if_splits sum.splits)

text \<open>A paying operation whose attempted transfer fails returns an error.\<close>

lemma releaseToOperator_transfer_fails:
  assumes "\<not> call_value e (operator (bookings s bid)) (amount (bookings s bid))"
  shows "\<exists>err. releaseToOperator e s bid = Inl err"
  using assms by (simp add: releaseToOperator_def storage_defs Let_def)

lemma refundToTourist_transfer_fails:
  assumes "\<not> call_value e (tourist (bookings s bid)) (amount (bookings s bid))"
  shows "\<exists>err. refundToTourist e s bid = Inl err"
  using assms by (simp add: refundToTourist_def storage_defs Let_def)

lemma handleTimeout_transfer_fails:
  assumes "\<not> call_value e (tourist (bookings s bid)) (amount (bookings s bid))"
  shows "\<exists>err. handleTimeout e s bid = Inl err"
  using assms by (simp add: handleTimeout_def storage_defs Let_def)

lemma resolveDispute_transfer_fails:
  assumes "\<not> call_value e (if w then operator (bookings s bid) else tourist (bookings s bid))
              (amount (bookings s bid))"
  shows "\<exists>err. resolveDispute e s bid w = Inl err"
  using assms by (simp add: resolveDispute_def storage_defs Let_def split: if_splits)

lemma refundWithPenalty_transfer_fails:
  assumes "(0 < amount (bookings s bid) * PENALTY_PERCENTAGE div BASIS_POINTS \<and>
            \<not> call_value e (operator (bookings s bid))
                (amount (bookings s bid) * PENALTY_PERCENTAGE div BASIS_POINTS)) \<or>
           (0 < amount (bookings s bid) -
                  amount (bookings s bid) * PENALTY_PERCENTAGE div BASIS_POINTS \<and>
            \<not> call_value e (tourist (bookings s bid))
                (amount (bookings s bid) -
                 amount (bookings s bid) * PENALTY_PERCENTAGE div BASIS_POINTS))"
  shows "\<exists>err. refundWithPenalty e s bid = Inl err"
proof (cases "refundWithPenalty e s bid")
  case (Inl err)
  then show ?thesis by blast
next
  case (Inr out)
  then have False
    using assms
    by (auto simp: refundWithPenalty_def storage_defs Let_def checked_mul_def checked_sub_def
        penalty_transfers_def split: if_splits sum.splits)
  then show ?thesis ..
qed

text \<open>What a paying operation that succeeds has done: the whole change and the whole payout.\<close>

lemma releaseToOperator_Inr:
  assumes "releaseToOperator e s bid = Inr (s', effs)"
  shows "s' = set_status s bid Paid \<and>
         transfers effs = [(operator (bookings s bid), amount (bookings s bid))]"
  using assms
  by (auto simp: releaseToOperator_def storage_defs Let_def split: if_splits)

lemma refundToTourist_Inr:
  assumes "refundToTourist e s bid = Inr (s', effs)"
  shows "s' = set_status s bid Refunded \<and>
         transfers effs = [(tourist (bookings s bid), amount (bookings s bid))]"
  using assms
  by (auto simp: refundToTourist_def storage_defs Let_def split: if_splits)

lemma handleTimeout_Inr:
  assumes "handleTimeout e s bid = Inr (s', effs)"
  shows "s' = set_status s bid Refunded \<and>
         transfers effs = [(tourist (bookings s bid), amount (bookings s bid))]"
  using assms
  by (auto simp: handleTimeout_def storage_defs Let_def split: if_splits)

lemma resolveDispute_Inr:
  assumes "resolveDispute e s bid w = Inr (s', effs)"
  shows "s' = set_status s bid (if w then Paid else Refunded) \<and>
         transfers effs =
           [(if w then operator (bookings s bid) else tourist (bookings s bid),
             amount (bookings s bid))]"
  using assms
  by (auto simp: resolveDispute_def storage_defs Let_def split: if_splits)

lemma refundWithPenalty_Inr_transfers:
  assumes "refundWithPenalty e s bid = Inr (s', effs)"
  shows "s' = set_status s bid Refunded \<and>
         transfers effs =
           (if 0 < amount (bookings s bid) * PENALTY_PERCENTAGE div BASIS_POINTS
            then [(operator (bookings s bid),
                   amount (bookings s bid) * PENALTY_PERCENTAGE div BASIS_POINTS)]
            else []) @
           (if 0 < amount (bookings s bid) -
                   amount (bookings s bid) * PENALTY_PERCENTAGE div BASIS_POINTS
            then [(tourist (bookings s bid),
                   amount (bookings s bid) -
                   amount (bookings s bid) * PENALTY_PERCENTAGE div BASIS_POINTS)]
            else [])"
  using assms
  by (auto simp: refundWithPenalty_def storage_defs Let_def checked_mul_def checked_sub_def
      penalty_transfers_def split: if_splits sum.splits)

lemma transact_returning_Inl:
  assumes "\<exists>err. f = Inl err" and "invoke e s c = returning f"
  shows "\<exists>err. transact e s c = (s, Inl err)"
  using assms by (auto simp: transact_def returning_def)

lemma transact_returning_Inr:
  assumes "transact e s c = (s', Inr (v, effs))" and "invoke e s c = returning f"
  shows "f = Inr (s', effs)"
  using assms by (auto simp: transact_def returning_def split: sum.splits)

text \<open>
  Claim C8. A transaction that returns an error leaves the whole ledger, and so every
  field of every booking, exactly as it was, and a transaction that succeeds has made
  only transfers that the transfer primitive carried out. For each paying operation:
  when the transfer it attempts fails (for \<^verbatim>\<open>refundWithPenalty\<close>: the penalty to the
  operator or the refund to the tourist, each attempted only for a non-zero value), the
  operation returns an error and the ledger is unchanged, whatever the other transfer
  did; and when the operation succeeds it has made the whole change of status and the
  whole payout. So there is no partial payout and no partial change of status.
\<close>

theorem all_or_nothing:
  "(transact e s c = (s', Inl err) \<longrightarrow> s' = s) \<and>
   (transact e s c = (s', Inr (v, effs)) \<and> (a, x) \<in> set (transfers effs) \<longrightarrow> call_value e a x) \<and>
   (\<not> call_value e (operator (bookings s bid)) (amount (bookings s bid))
      \<longrightarrow> (\<exists>err. transact e s (ReleaseToOperator bid) = (s, Inl err))) \<and>
   (\<not> call_value e (tourist (bookings s bid)) (amount (bookings s bid))
      \<longrightarrow> (\<exists>err. transact e s (RefundToTourist bid) = (s, Inl err)) \<and>
          (\<exists>err. transact e s (HandleTimeout bid) = (s, Inl err))) \<and>
   (\<not> call_value e (if w then operator (bookings s bid) else tourist (bookings s bid))
        (amount (bookings s bid))
      \<longrightarrow> (\<exists>err. transact e s (ResolveDispute bid w) = (s, Inl err))) \<and>
   ((0 < amount (bookings s bid) * PENALTY_PERCENTAGE div BASIS_POINTS \<and>
     \<not> call_value e (operator (bookings s bid))
         (amount (bookings s bid) * PENALTY_PERCENTAGE div BASIS_POINTS)) \<or>
    (0 < amount (bookings s bid) - amount (bookings s bid) * PENALTY_PERCENTAGE div BASIS_POINTS \<and>
     \<not> call_value e (tourist (bookings s bid))
         (amount (bookings s bid) - amount (bookings s bid) * PENALTY_PERCENTAGE div BASIS_POINTS))
      \<longrightarrow> (\<exists>err. transact e s (RefundWithPenalty bid) = (s, Inl err))) \<and>
   (transact e s (ReleaseToOperator bid) = (s', Inr (v, effs))
      \<longrightarrow> s' = set_status s bid Paid \<and>
          transfers effs = [(operator (bookings s bid), amount (bookings s bid))]) \<and>
   (transact e s (RefundToTourist bid) = (s', Inr (v, effs)) \<or>
    transact e s (HandleTimeout bid) = (s', Inr (v, effs))
      \<longrightarrow> s' = set_status s bid Refunded \<and>
          transfers effs = [(tourist (bookings s bid), amount (bookings s bid))]) \<and>
   (transact e s (ResolveDispute bid w) = (s', Inr (v, effs))
      \<longrightarrow> s' = set_status s bid (if w then Paid else Refunded) \<and>
          transfers effs =
            [(if w then operator (bookings s bid) else tourist (bookings s bid),
              amount (bookings s bid))]) \<and>
   (transact e s (RefundWithPenalty bid) = (s', Inr (v, effs))
      \<longrightarrow> s' = set_status s bid Refunded \<and>
          transfers effs =
            (if 0 < amount (bookings s bid) * PENALTY_PERCENTAGE div BASIS_POINTS
             then [(operator (bookings s bid),
                    amount (bookings s bid) * PENALTY_PERCENTAGE div BASIS_POINTS)]
             else []) @
            (if 0 < amount (bookings s bid) -
                    amount (bookings s bid) * PENALTY_PERCENTAGE div BASIS_POINTS
             then [(tourist (bookings s bid),
                    amount (bookings s bid) -
                    amount (bookings s bid) * PENALTY_PERCENTAGE div BASIS_POINTS)]
             else []))"
proof -
  have 1: "transact e s c = (s', Inl err) \<longrightarrow> s' = s"
    by (auto simp: transact_def split: sum.splits)
  have 2: "transact e s c = (s', Inr (v, effs)) \<and> (a, x) \<in> set (transfers effs)
      \<longrightarrow> call_value e a x"
  proof
    assume a: "transact e s c = (s', Inr (v, effs)) \<and> (a, x) \<in> set (transfers effs)"
    then have "invoke e s c = Inr (s', v, effs)" by (auto simp: transact_def split: sum.splits)
    with a show "call_value e a x" by (blast intro: transfers_ok)
  qed
  have 3: "\<not> call_value e (operator (bookings s bid)) (amount (bookings s bid))
      \<longrightarrow> (\<exists>err. transact e s (ReleaseToOperator bid) = (s, Inl err))"
    by (blast intro: transact_returning_Inl releaseToOperator_transfer_fails invoke.simps)
  have 4: "\<not> call_value e (tourist (bookings s bid)) (amount (bookings s bid))
      \<longrightarrow> (\<exists>err. transact e s (RefundToTourist bid) = (s, Inl err)) \<and>
          (\<exists>err. transact e s (HandleTimeout bid) = (s, Inl err))"
    by (blast intro: transact_returning_Inl refundToTourist_transfer_fails
        handleTimeout_transfer_fails invoke.simps)
  have 5: "\<not> call_value e (if w then operator (bookings s bid) else tourist (bookings s bid))
        (amount (bookings s bid))
      \<longrightarrow> (\<exists>err. transact e s (ResolveDispute bid w) = (s, Inl err))"
    by (blast intro: transact_returning_Inl resolveDispute_transfer_fails invoke.simps)
  have 6: "(0 < amount (bookings s bid) * PENALTY_PERCENTAGE div BASIS_POINTS \<and>
     \<not> call_value e (operator (bookings s bid))
         (amount (bookings s bid) * PENALTY_PERCENTAGE div BASIS_POINTS)) \<or>
    (0 < amount (bookings s bid) - amount (bookings s bid) * PENALTY_PERCENTAGE div BASIS_POINTS \<and>
     \<not> call_value e (tourist (bookings s bid))
         (amount (bookings s bid) - amount (bookings s bid) * PENALTY_PERCENTAGE div BASIS_POINTS))
      \<longrightarrow> (\<exists>err. transact e s (RefundWithPenalty bid) = (s, Inl err))"
    by (blast intro: transact_returning_Inl refundWithPenalty_transfer_fails invoke.simps)
  have 7: "transact e s (ReleaseToOperator bid) = (s', Inr (v, effs))
      \<longrightarrow> s' = set_status s bid Paid \<and>
          transfers effs = [(operator (bookings s bid), amount (bookings s bid))]"
    by (blast dest: transact_returning_Inr [OF _ invoke.simps(3)] releaseToOperator_Inr)
  have 8: "transact e s (RefundToTourist bid) = (s', Inr (v, effs)) \<or>
    transact e s (HandleTimeout bid) = (s', Inr (v, effs))
      \<longrightarrow> s' = set_status s bid Refunded \<and>
          transfers effs = [(tourist (bookings s bid), amount (bookings s bid))]"
    by (blast dest: transact_returning_Inr [OF _ invoke.simps(4)]
        transact_returning_Inr [OF _ invoke.simps(6)] refundToTourist_Inr handleTimeout_Inr)
  have 9: "transact e s (ResolveDispute bid w) = (s', Inr (v, effs))
      \<longrightarrow> s' = set_status s bid (if w then Paid else Refunded) \<and>
          transfers effs =
            [(if w then operator (bookings s bid) else tourist (bookings s bid),
              amount (bookings s bid))]"
    by (blast dest: transact_returning_Inr [OF _ invoke.simps(8)] resolveDispute_Inr)
  have 10: "transact e s (RefundWithPenalty bid) = (s', Inr (v, effs))
      \<longrightarrow> s' = set_status s bid Refunded \<and>
          transfers effs =
            (if 0 < amount (bookings s bid) * PENALTY_PERCENTAGE div BASIS_POINTS
             then [(operator (bookings s bid),
                    amount (bookings s bid) * PENALTY_PERCENTAGE div BASIS_POINTS)]
             else []) @
            (if 0 < amount (bookings s bid) -
                    amount (bookings s bid) * PENALTY_PERCENTAGE div BASIS_POINTS
             then [(tourist (bookings s bid),
                    amount (bookings s bid) -
                    amount (bookings s bid) * PENALTY_PERCENTAGE div BASIS_POINTS)]
             else [])"
    by (blast dest: transact_returning_Inr [OF _ invoke.simps(5)] refundWithPenalty_Inr_transfers)
  from 1 2 3 4 5 6 7 8 9 10 show ?thesis by (intro conjI)
qed

theorem all_or_nothing_witness:
  "0 < amount (bookings (ledger_verified ''b2'' 5000 False) ''b2'') * PENALTY_PERCENTAGE
         div BASIS_POINTS \<and>
   call_value (paying_only 3 9 0 3000) 3 5 \<and>
   \<not> call_value (paying_only 3 9 0 3000) 2 4995 \<and>
   transact (paying_only 3 9 0 3000) (ledger_verified ''b2'' 5000 False) (RefundWithPenalty ''b2'') =
     (ledger_verified ''b2'' 5000 False, Inl TransferFailed) \<and>
   status (bookings (ledger_verified ''b2'' 5000 False) ''b2'') = SLAFailed \<and>
   \<not> call_value (refusing 9 0 3000) 3 100 \<and>
   transact (refusing 9 0 3000) (ledger_verified ''b1'' 100 True) (ReleaseToOperator ''b1'') =
     (ledger_verified ''b1'' 100 True, Inl TransferFailed) \<and>
   status (bookings (ledger_verified ''b1'' 100 True) ''b1'') = SLAPassed"
proof -
  have h1: "0 < amount (bookings (ledger_verified ''b2'' 5000 False) ''b2'') * PENALTY_PERCENTAGE
         div BASIS_POINTS"
    by (simp add: ledger_failed_5000 PENALTY_PERCENTAGE_def BASIS_POINTS_def)
  have h2: "call_value (paying_only 3 9 0 3000) 3 5"
    by (simp add: paying_only_def only_to_def)
  have h3: "\<not> call_value (paying_only 3 9 0 3000) 2 4995"
    by (simp add: paying_only_def only_to_def)
  have h3': "\<not> call_value (paying_only 3 9 0 3000)
      (tourist (bookings (ledger_verified ''b2'' 5000 False) ''b2''))
      (amount (bookings (ledger_verified ''b2'' 5000 False) ''b2'') -
       amount (bookings (ledger_verified ''b2'' 5000 False) ''b2'') * PENALTY_PERCENTAGE
         div BASIS_POINTS)"
    by (simp add: ledger_failed_5000 paying_only_def only_to_def)
  have h3'': "0 < amount (bookings (ledger_verified ''b2'' 5000 False) ''b2'') -
       amount (bookings (ledger_verified ''b2'' 5000 False) ''b2'') * PENALTY_PERCENTAGE
         div BASIS_POINTS"
    by (simp add: ledger_failed_5000 PENALTY_PERCENTAGE_def BASIS_POINTS_def)
  from all_or_nothing [of "paying_only 3 9 0 3000" "ledger_verified ''b2'' 5000 False"
      "RefundWithPenalty ''b2''" "ledger_verified ''b2'' 5000 False" TransferFailed NoValue "[]"
      0 0 "''b2''" True] h3' h3''
  obtain err where t: "transact (paying_only 3 9 0 3000) (ledger_verified ''b2'' 5000 False)
      (RefundWithPenalty ''b2'') = (ledger_verified ''b2'' 5000 False, Inl err)"
    by blast
  have "invoke (paying_only 3 9 0 3000) (ledger_verified ''b2'' 5000 False)
      (RefundWithPenalty ''b2'') = Inl TransferFailed"
    by (simp add: returning_def refundWithPenalty_def storage_defs Let_def ledger_failed_5000
        checked_mul_def checked_sub_def PENALTY_PERCENTAGE_def BASIS_POINTS_def
        penalty_transfers_def paying_only_def only_to_def)
  with t have e1: "err = TransferFailed" by (simp add: transact_def)
  have h4: "\<not> call_value (refusing 9 0 3000) 3 100"
    by (simp add: refusing_def never_ok_def)
  then have h4': "\<not> call_value (refusing 9 0 3000)
      (operator (bookings (ledger_verified ''b1'' 100 True) ''b1''))
      (amount (bookings (ledger_verified ''b1'' 100 True) ''b1''))"
    by (simp add: ledger_passed_b1)
  from all_or_nothing [of "refusing 9 0 3000" "ledger_verified ''b1'' 100 True"
      "ReleaseToOperator ''b1''" "ledger_verified ''b1'' 100 True" TransferFailed NoValue "[]"
      0 0 "''b1''" True] h4'
  obtain err' where t': "transact (refusing 9 0 3000) (ledger_verified ''b1'' 100 True)
      (ReleaseToOperator ''b1'') = (ledger_verified ''b1'' 100 True, Inl err')"
    by blast
  have "invoke (refusing 9 0 3000) (ledger_verified ''b1'' 100 True) (ReleaseToOperator ''b1'') =
      Inl TransferFailed"
    by (simp add: returning_def releaseToOperator_def storage_defs Let_def ledger_passed_b1
        refusing_def never_ok_def)
  with t' have e2: "err' = TransferFailed" by (simp add: transact_def)
  from t t' e1 e2 h1 h2 h3 h4 show ?thesis
    by (simp add: ledger_failed_5000 ledger_passed_b1)
qed

subsection \<open>The owner as arbiter\<close>

text \<open>
  Claim C9, as stated, fails: the owner may revoke its own arbiter role, and the ledger
  reached that way has an owner who is no arbiter.
\<close>

theorem owner_arbiter_counterexample:
  "reachable ledger_self_revoked \<and> \<not> arbiters ledger_self_revoked (owner ledger_self_revoked)"
proof
  show "reachable ledger_self_revoked"
    unfolding ledger_self_revoked_def by (intro reachable_run reachable.deployed)
  show "\<not> arbiters ledger_self_revoked (owner ledger_self_revoked)"
    by (simp add: ledger_self_revoked_def run_defs)
qed

text \<open>
  Claim C9, amended. The owner is an arbiter in the ledger the constructor produces.
  A transaction other than \<^verbatim>\<open>revokeArbiter\<close> applied to the owner keeps the owner an
  arbiter, and so does every transaction whose caller is not the owner: the owner loses
  the role only by revoking it itself.
\<close>

theorem owner_arbiter_until_revoked:
  "arbiters (constructor e0) (owner (constructor e0)) \<and>
   (arbiters s (owner s) \<and> c \<noteq> RevokeArbiter (owner s)
      \<longrightarrow> arbiters (fst (transact e s c)) (owner (fst (transact e s c)))) \<and>
   (arbiters s (owner s) \<and> msg_sender e \<noteq> owner s
      \<longrightarrow> arbiters (fst (transact e s c)) (owner (fst (transact e s c))))"
  by (cases c)
    (auto simp: constructor_def transact_def returning_def viewing_def op_defs storage_defs Let_def
      split: sum.splits if_splits)

theorem owner_arbiter_until_revoked_witness:
  "arbiters (constructor (calling 1 0 0)) (owner (constructor (calling 1 0 0))) \<and>
   AuthorizeArbiter 5 \<noteq> RevokeArbiter (owner (constructor (calling 1 0 0))) \<and>
   arbiters (fst (transact (calling 1 0 10) (constructor (calling 1 0 0)) (AuthorizeArbiter 5)))
     (owner (fst (transact (calling 1 0 10) (constructor (calling 1 0 0)) (AuthorizeArbiter 5))))"
  using owner_arbiter_until_revoked [of "calling 1 0 0" "constructor (calling 1 0 0)"
      "AuthorizeArbiter 5" "calling 1 0 10"]
  by simp

subsection \<open>Conservation of the escrowed amount\<close>

lemma total_paid_simps:
  "total_paid [] = 0"
  "total_paid (Transfer a x # effs) = unat x + total_paid effs"
  "total_paid (Emit ev # effs) = total_paid effs"
  by (simp_all add: total_paid_def)

lemma refundWithPenalty_Inr:
  assumes "refundWithPenalty e s bid = Inr (s', effs)"
  shows "\<exists>p r sent. checked_mul (amount (bookings s bid)) PENALTY_PERCENTAGE = Inr p \<and>
           checked_sub (amount (bookings s bid)) (p div BASIS_POINTS) = Inr r \<and>
           penalty_transfers e (bookings s' bid) (p div BASIS_POINTS) r = Inr sent \<and>
           s' = set_status s bid Refunded \<and>
           effs = sent @ [Emit (Refunded_ev bid (tourist (bookings s bid)) r),
                          Emit (PaidOut bid (operator (bookings s bid)) (p div BASIS_POINTS))]"
  using assms
  by (auto simp: refundWithPenalty_def storage_defs Let_def split: if_splits sum.splits)

lemma refundWithPenalty_total:
  assumes "refundWithPenalty e s bid = Inr (s', effs)"
  shows "total_paid effs = unat (amount (bookings s bid))"
proof -
  from refundWithPenalty_Inr [OF assms] obtain p r sent ev1 ev2 where
    p: "checked_mul (amount (bookings s bid)) PENALTY_PERCENTAGE = Inr p" and
    r: "checked_sub (amount (bookings s bid)) (p div BASIS_POINTS) = Inr r" and
    sent: "penalty_transfers e (bookings s' bid) (p div BASIS_POINTS) r = Inr sent" and
    effs: "effs = sent @ [Emit ev1, Emit ev2]"
    by blast
  have "total_paid effs = unat (p div BASIS_POINTS) + unat r"
    unfolding effs by (rule total_paid_penalty_transfers [OF sent])
  also have "\<dots> = unat (amount (bookings s bid))"
    by (simp add: unat_penalty [OF p] unat_refund [OF p r])
  finally show ?thesis .
qed

lemma payout_total:
  assumes "f \<in> {releaseToOperator, refundToTourist, refundWithPenalty, handleTimeout}"
    and "f e s bid = Inr (s', effs)"
  shows "total_paid effs = unat (amount (bookings s bid))"
proof (cases "f = refundWithPenalty")
  case True
  with assms(2) show ?thesis by (simp add: refundWithPenalty_total)
next
  case False
  with assms have "f \<in> {releaseToOperator, refundToTourist, handleTimeout}" by auto
  with assms(2) show ?thesis
    by (auto simp: releaseToOperator_def refundToTourist_def handleTimeout_def storage_defs
        Let_def total_paid_simps split: if_splits)
qed

lemma resolveDispute_total:
  assumes "resolveDispute e s bid w = Inr (s', effs)"
  shows "total_paid effs = unat (amount (bookings s bid))"
  using assms
  by (auto simp: resolveDispute_def storage_defs Let_def total_paid_simps split: if_splits)

lemma terminal_transition_total:
  assumes "invoke e s c = Inr (s', v, effs)"
    and "status (bookings s bid) \<notin> {Refunded, Paid}"
    and "status (bookings s' bid) \<in> {Refunded, Paid}"
  shows "total_paid effs = unat (amount (bookings s bid))"
  using assms(1)
proof (cases rule: invoke_cases)
  case (create bid' opr)
  from createBooking_booking [OF create(2), of bid] assms(2,3) show ?thesis by auto
next
  case (verify bid' p)
  from verifySLA_booking [OF verify(2), of bid] assms(2,3) show ?thesis
    by (auto split: if_splits)
next
  case (payout bid' f)
  from payout_booking [OF payout, of bid] assms(2,3) have "bid = bid'" by auto
  with payout_total [OF payout] show ?thesis by simp
next
  case (dispute bid')
  from raiseDispute_booking [OF dispute(2), of bid] assms(2,3) show ?thesis by auto
next
  case (resolve bid' w)
  from resolveDispute_booking [OF resolve(2), of bid] assms(2,3) have "bid = bid'" by auto
  with resolveDispute_total [OF resolve(2)] show ?thesis by simp
next
  case other
  with assms(2,3) show ?thesis by simp
qed

text \<open>
  Claim C1. Whenever a transaction moves a booking from a status that is not terminal
  into \<open>Refunded\<close> or \<open>Paid\<close>, the values of the transfers it makes add up, as natural
  numbers, to the booking's amount. In particular a successful \<^verbatim>\<open>refundWithPenalty\<close>
  computes the penalty as the floor of \<open>amount * PENALTY_PERCENTAGE / BASIS_POINTS\<close> and
  the refund as the amount less the penalty; the two add up to the amount; the penalty
  goes to the operator and the refund to the tourist, a transfer being made only for a
  value that is not zero; and the booking ends \<open>Refunded\<close>.
\<close>

theorem payout_conservation:
  "(transact e s c = (s', Inr (v, effs)) \<and> status (bookings s bid) \<notin> {Refunded, Paid} \<and>
    status (bookings s' bid) \<in> {Refunded, Paid}
      \<longrightarrow> total_paid effs = unat (amount (bookings s bid))) \<and>
   (refundWithPenalty e s bid = Inr (sp, effp)
      \<longrightarrow> (\<exists>penalty refund.
            unat penalty =
              unat (amount (bookings s bid)) * unat PENALTY_PERCENTAGE div unat BASIS_POINTS \<and>
            unat refund = unat (amount (bookings s bid)) - unat penalty \<and>
            unat penalty + unat refund = unat (amount (bookings s bid)) \<and>
            transfers effp =
              (if 0 < penalty then [(operator (bookings s bid), penalty)] else []) @
              (if 0 < refund then [(tourist (bookings s bid), refund)] else []) \<and>
            status (bookings sp bid) = Refunded))"
proof (intro conjI impI)
  assume a: "transact e s c = (s', Inr (v, effs)) \<and> status (bookings s bid) \<notin> {Refunded, Paid} \<and>
    status (bookings s' bid) \<in> {Refunded, Paid}"
  then have "invoke e s c = Inr (s', v, effs)"
    by (auto simp: transact_def split: sum.splits)
  with a show "total_paid effs = unat (amount (bookings s bid))"
    by (blast intro: terminal_transition_total)
next
  assume a: "refundWithPenalty e s bid = Inr (sp, effp)"
  from refundWithPenalty_Inr [OF a] obtain p r sent where
    p: "checked_mul (amount (bookings s bid)) PENALTY_PERCENTAGE = Inr p" and
    r: "checked_sub (amount (bookings s bid)) (p div BASIS_POINTS) = Inr r" and
    sent: "penalty_transfers e (bookings sp bid) (p div BASIS_POINTS) r = Inr sent" and
    sp: "sp = set_status s bid Refunded" and
    effp: "effp = sent @ [Emit (Refunded_ev bid (tourist (bookings s bid)) r),
                          Emit (PaidOut bid (operator (bookings s bid)) (p div BASIS_POINTS))]"
    by blast
  have 1: "unat (p div BASIS_POINTS) =
      unat (amount (bookings s bid)) * unat PENALTY_PERCENTAGE div unat BASIS_POINTS"
    using unat_penalty [OF p] by (simp add: PENALTY_PERCENTAGE_def BASIS_POINTS_def)
  have 2: "unat r = unat (amount (bookings s bid)) - unat (p div BASIS_POINTS)"
    by (simp add: unat_refund [OF p r] unat_penalty [OF p])
  have 3: "unat (p div BASIS_POINTS) + unat r = unat (amount (bookings s bid))"
    by (simp add: unat_refund [OF p r] unat_penalty [OF p])
  have 4: "transfers effp =
      (if 0 < p div BASIS_POINTS then [(operator (bookings s bid), p div BASIS_POINTS)] else []) @
      (if 0 < r then [(tourist (bookings s bid), r)] else [])"
    using sent by (auto simp: effp sp penalty_transfers_def set_status_def split: if_splits)
  have 5: "status (bookings sp bid) = Refunded"
    by (simp add: sp set_status_def)
  from 1 2 3 4 5 show "\<exists>penalty refund.
            unat penalty =
              unat (amount (bookings s bid)) * unat PENALTY_PERCENTAGE div unat BASIS_POINTS \<and>
            unat refund = unat (amount (bookings s bid)) - unat penalty \<and>
            unat penalty + unat refund = unat (amount (bookings s bid)) \<and>
            transfers effp =
              (if 0 < penalty then [(operator (bookings s bid), penalty)] else []) @
              (if 0 < refund then [(tourist (bookings s bid), refund)] else []) \<and>
            status (bookings sp bid) = Refunded"
    by blast
qed

lemma refund_5000:
  "refundWithPenalty (calling 9 0 3000) (ledger_verified ''b2'' 5000 False) ''b2'' =
     Inr (set_status (ledger_verified ''b2'' 5000 False) ''b2'' Refunded,
          [Transfer 3 5, Transfer 2 4995, Emit (Refunded_ev ''b2'' 2 4995), Emit (PaidOut ''b2'' 3 5)])"
  by (simp add: refundWithPenalty_def ledger_failed_5000 bookingExists_def Let_def
      checked_mul_def checked_sub_def PENALTY_PERCENTAGE_def BASIS_POINTS_def
      penalty_transfers_def calling_def always_ok_def set_status_def)

theorem payout_conservation_witness:
  "transact (calling 9 0 3000) (ledger_verified ''b2'' 5000 False) (RefundWithPenalty ''b2'') =
     (set_status (ledger_verified ''b2'' 5000 False) ''b2'' Refunded,
      Inr (NoValue, [Transfer 3 5, Transfer 2 4995,
                     Emit (Refunded_ev ''b2'' 2 4995), Emit (PaidOut ''b2'' 3 5)])) \<and>
   status (bookings (ledger_verified ''b2'' 5000 False) ''b2'') \<notin> {Refunded, Paid} \<and>
   status (bookings (set_status (ledger_verified ''b2'' 5000 False) ''b2'' Refunded) ''b2'')
     \<in> {Refunded, Paid} \<and>
   total_paid [Transfer 3 5, Transfer 2 4995,
               Emit (Refunded_ev ''b2'' 2 4995), Emit (PaidOut ''b2'' 3 5)] =
     unat (amount (bookings (ledger_verified ''b2'' 5000 False) ''b2'')) \<and>
   unat (amount (bookings (ledger_verified ''b2'' 5000 False) ''b2'')) = 5000"
proof -
  have t: "transact (calling 9 0 3000) (ledger_verified ''b2'' 5000 False) (RefundWithPenalty ''b2'') =
     (set_status (ledger_verified ''b2'' 5000 False) ''b2'' Refunded,
      Inr (NoValue, [Transfer 3 5, Transfer 2 4995,
                     Emit (Refunded_ev ''b2'' 2 4995), Emit (PaidOut ''b2'' 3 5)]))"
    by (simp add: transact_def returning_def refund_5000)
  have h1: "status (bookings (ledger_verified ''b2'' 5000 False) ''b2'') \<notin> {Refunded, Paid}"
    by (simp add: ledger_failed_5000)
  have h2: "status (bookings (set_status (ledger_verified ''b2'' 5000 False) ''b2'' Refunded) ''b2'')
     \<in> {Refunded, Paid}"
    by (simp add: set_status_def)
  from payout_conservation [of "calling 9 0 3000" "ledger_verified ''b2'' 5000 False"
      "RefundWithPenalty ''b2''" "set_status (ledger_verified ''b2'' 5000 False) ''b2'' Refunded"
      NoValue "[Transfer 3 5, Transfer 2 4995,
                Emit (Refunded_ev ''b2'' 2 4995), Emit (PaidOut ''b2'' 3 5)]" "''b2''"
      "set_status (ledger_verified ''b2'' 5000 False) ''b2'' Refunded" "[]"] t h1 h2
  have "total_paid [Transfer 3 5, Transfer 2 4995,
               Emit (Refunded_ev ''b2'' 2 4995), Emit (PaidOut ''b2'' 3 5)] =
     unat (amount (bookings (ledger_verified ''b2'' 5000 False) ''b2''))"
    by blast
  with t h1 h2 show ?thesis by (simp add: ledger_failed_5000)
qed

subsection \<open>The penalty rate\<close>

text \<open>
  Claim C4. The contract computes the penalty as
  \<^verbatim>\<open>amount * PENALTY_PERCENTAGE / BASIS_POINTS\<close> with the constants 10 and 10000, which is
  a tenth of a percent. For a failed booking of amount 100 \<^verbatim>\<open>refundWithPenalty\<close> makes
  one transfer, of 100 to the tourist, and reports a payout of 0 to the operator; for
  amount 7 it transfers 7 to the tourist.
\<close>

theorem penalty_rate_evaluated:
  "refundWithPenalty (calling 9 0 3000) (ledger_verified ''b2'' 100 False) ''b2'' =
     Inr (set_status (ledger_verified ''b2'' 100 False) ''b2'' Refunded,
          [Transfer 2 100, Emit (Refunded_ev ''b2'' 2 100), Emit (PaidOut ''b2'' 3 0)]) \<and>
   refundWithPenalty (calling 9 0 3000) (ledger_verified ''b2'' 7 False) ''b2'' =
     Inr (set_status (ledger_verified ''b2'' 7 False) ''b2'' Refunded,
          [Transfer 2 7, Emit (Refunded_ev ''b2'' 2 7), Emit (PaidOut ''b2'' 3 0)])"
  by (simp add: refundWithPenalty_def ledger_failed_b2 ledger_failed_7 bookingExists_def Let_def
      checked_mul_def checked_sub_def PENALTY_PERCENTAGE_def BASIS_POINTS_def
      penalty_transfers_def calling_def always_ok_def set_status_def)

subsection \<open>Timeout on a verified booking\<close>

lemma handleTimeout_never_AlreadyVerified:
  assumes "reachable s"
  shows "handleTimeout e s bid \<noteq> Inl AlreadyVerified"
  using pending_unverified_reachable [OF assms, of bid]
  by (auto simp: handleTimeout_def Let_def)

text \<open>
  Claim C6. A booking is created at time 1000 and verified at time 2000; its deadline is
  87400. At time 90000 \<^verbatim>\<open>handleTimeout\<close> fails with \<open>InvalidState\<close>, the revert of the
  status modifier, and not with \<open>AlreadyVerified\<close>: by the lemma above the check that
  would give \<open>AlreadyVerified\<close> is never the one that fails in a reachable ledger.
\<close>

theorem timeout_on_verified_evaluated:
  "slaVerified (bookings (ledger_verified ''b1'' 100 True) ''b1'') \<and>
   slaDeadline (bookings (ledger_verified ''b1'' 100 True) ''b1'') <
     block_timestamp (calling 9 0 90000) \<and>
   handleTimeout (calling 9 0 90000) (ledger_verified ''b1'' 100 True) ''b1'' = Inl InvalidState"
  by (simp add: handleTimeout_def ledger_passed_b1 bookingExists_def calling_def)

subsection \<open>The views\<close>

lemma views_pure:
  assumes "c \<in> {GetBooking bid, IsTimedOut bid, GetTimeRemaining bid}"
  shows "fst (transact e s c) = s"
  using assms by (auto simp: transact_fst viewing_def split: sum.splits)

lemma getBooking_NotFound:
  assumes "msg_value e = 0"
  shows "getBooking e s bid = (if bookingExists s bid then Inr (bookings s bid) else Inl NotFound)"
  using assms by (simp add: getBooking_def bookingExists_def)

lemma getTimeRemaining_total:
  assumes "msg_value e = 0"
  shows "getTimeRemaining e s bid =
     Inr (if slaDeadline (bookings s bid) \<le> block_timestamp e then 0
          else slaDeadline (bookings s bid) - block_timestamp e)"
  using assms by (auto simp: getTimeRemaining_def checked_sub_def Let_def)

lemma ledger_pending_unknown: "bookings (ledger_pending ''b1'' 100) ''nope'' = zero_Booking"
  by (simp add: ledger_pending_def run_defs)

text \<open>
  Claim C7. On an identifier that was never booked \<^verbatim>\<open>getBooking\<close> fails with
  \<open>NotFound\<close>, but \<^verbatim>\<open>isTimedOut\<close> returns true and \<^verbatim>\<open>getTimeRemaining\<close> returns 0:
  neither of the two tests that the booking exists. By the lemmas above the three views
  leave the storage alone and, called without value, \<^verbatim>\<open>getBooking\<close> fails exactly on an
  unknown identifier and \<^verbatim>\<open>getTimeRemaining\<close> never fails and is 0 once the deadline
  has passed.
\<close>

theorem views_on_unknown_evaluated:
  "\<not> bookingExists (ledger_pending ''b1'' 100) ''nope'' \<and>
   transact (calling 9 0 3000) (ledger_pending ''b1'' 100) (GetBooking ''nope'') =
     (ledger_pending ''b1'' 100, Inl NotFound) \<and>
   transact (calling 9 0 3000) (ledger_pending ''b1'' 100) (IsTimedOut ''nope'') =
     (ledger_pending ''b1'' 100, Inr (BoolValue True, [])) \<and>
   transact (calling 9 0 3000) (ledger_pending ''b1'' 100) (GetTimeRemaining ''nope'') =
     (ledger_pending ''b1'' 100, Inr (UintValue 0, []))"
  by (simp add: transact_def viewing_def view_defs bookingExists_def ledger_pending_unknown
      zero_Booking_def calling_def Let_def)

end
